theory Spec2Isabelle
  imports Main "HOL-Library.Word"
begin

unbundle bit_operations_syntax

section \<open>Data of test_xor_decryption.py\<close>

text \<open>
  The lists of the script hold Python ints in \<open>0..255\<close> (they go through \<open>bytes(b)\<close>), so an
  element is an \<open>8 word\<close>; the values packed and unpacked with \<open>'<I'\<close> are \<open>32 word\<close>s.
  File offsets are Python ints, unbounded: \<open>int\<close>, whose \<open>div\<close> and \<open>mod\<close> round as
  \<open>//\<close> and \<open>%\<close> do.
\<close>

type_synonym byte = "8 word"
type_synonym u32 = "32 word"

datatype py_error =
  StructError | IndexError | FileNotFoundError | PermissionError | OSError | ReError

definition bind_err :: "py_error + 'a \<Rightarrow> ('a \<Rightarrow> py_error + 'b) \<Rightarrow> py_error + 'b" where
  "bind_err m f = (case m of Inl e \<Rightarrow> Inl e | Inr x \<Rightarrow> f x)"

definition XOR_KEY1 :: "byte list" where
  "XOR_KEY1 = [0x84, 0x22, 0xe9, 0xad]"

definition XOR_KEY2 :: "byte list" where
  "XOR_KEY2 = [0xb7, 0x8f, 0xff, 0x14]"

definition ENCRYPTED_MAGIC :: "byte list" where
  "ENCRYPTED_MAGIC = [0x7d, 0x9c, 0x5d, 0x74]"

definition EXPECTED_MAGIC :: "byte list" where
  "EXPECTED_MAGIC = [0xf9, 0xbe, 0xb4, 0xd9]"

text \<open>\<open>struct.unpack('<I', bytes(b))[0]\<close>: exactly four bytes, little-endian; any other
  length raises \<open>struct.error\<close>.\<close>

fun u32_from_bytes :: "byte list \<Rightarrow> py_error + u32" where
  "u32_from_bytes [b0, b1, b2, b3] =
     Inr (ucast b0 OR push_bit 8 (ucast b1) OR push_bit 16 (ucast b2) OR push_bit 24 (ucast b3))"
| "u32_from_bytes _ = Inl StructError"

text \<open>\<open>list(struct.pack('<I', v))\<close>.\<close>

definition bytes_from_u32 :: "u32 \<Rightarrow> byte list" where
  "bytes_from_u32 v = [ucast v, ucast (drop_bit 8 v), ucast (drop_bit 16 v), ucast (drop_bit 24 v)]"

subsection \<open>Key selection\<close>

text \<open>Every test selects the key by the same three statements:
  \<open>use_key1 = (offset // 4) % 2 == 0\<close>, the two keys unpacked as integers, and
  \<open>key_u32 = key1_u32 if use_key1 else key2_u32\<close> (or the byte key
  \<open>key = XOR_KEY1 if use_key1 else XOR_KEY2\<close>).\<close>

definition use_key1 :: "int \<Rightarrow> bool" where
  "use_key1 offset = ((offset div 4) mod 2 = 0)"

definition key_u32 :: "int \<Rightarrow> py_error + u32" where
  "key_u32 offset =
     bind_err (u32_from_bytes XOR_KEY1) (\<lambda>key1_u32.
     bind_err (u32_from_bytes XOR_KEY2) (\<lambda>key2_u32.
     Inr (if use_key1 offset then key1_u32 else key2_u32)))"

definition key :: "int \<Rightarrow> byte list" where
  "key offset = (if use_key1 offset then XOR_KEY1 else XOR_KEY2)"

subsection \<open>test_magic_decryption\<close>

text \<open>Lines 29 to 36, as a function of \<open>encrypted_magic\<close> and \<open>magic_start_pos\<close>; lines 149
  to 156 of test_byte_by_byte_vs_u32 are the same statements on \<open>test_data\<close> and
  \<open>file_offset\<close> (there the result is called \<open>decrypted_new\<close>).\<close>

definition decrypted_magic :: "byte list \<Rightarrow> int \<Rightarrow> py_error + byte list" where
  "decrypted_magic encrypted_magic magic_start_pos =
     bind_err (key_u32 magic_start_pos) (\<lambda>k.
     bind_err (u32_from_bytes encrypted_magic) (\<lambda>magic_u32.
     Inr (bytes_from_u32 (magic_u32 XOR k))))"

definition test_magic_decryption :: "py_error + bool" where
  "test_magic_decryption =
     bind_err (decrypted_magic ENCRYPTED_MAGIC 0) (\<lambda>d. Inr (d = EXPECTED_MAGIC))"

subsection \<open>test_size_decryption\<close>

definition test_cases :: "(int \<times> int) list" where
  "test_cases = [(0, 4), (100, 104), (200, 204)]"

text \<open>Line 80: the known size, packed and unpacked, XORed with the key of \<open>size_offset\<close>.\<close>

definition encrypted_size_u32 :: "u32 \<Rightarrow> int \<Rightarrow> py_error + u32" where
  "encrypted_size_u32 known_size size_offset =
     bind_err (key_u32 size_offset) (\<lambda>k.
     bind_err (u32_from_bytes (bytes_from_u32 known_size)) (\<lambda>v. Inr (v XOR k)))"

text \<open>Line 84: the encrypted integer XORed with the same key.\<close>

definition decrypted_size_u32 :: "u32 \<Rightarrow> int \<Rightarrow> py_error + u32" where
  "decrypted_size_u32 encrypted size_offset =
     bind_err (key_u32 size_offset) (\<lambda>k. Inr (encrypted XOR k))"

text \<open>One pass of the loop body: does the decrypted size equal the known size, 1000?\<close>

definition size_case :: "int \<times> int \<Rightarrow> py_error + bool" where
  "size_case c =
     (let size_offset = snd c; known_size = 1000 in
      bind_err (encrypted_size_u32 known_size size_offset) (\<lambda>e.
      bind_err (decrypted_size_u32 e size_offset) (\<lambda>decrypted_size.
      Inr (decrypted_size = known_size))))"

fun size_loop :: "(int \<times> int) list \<Rightarrow> bool \<Rightarrow> py_error + bool" where
  "size_loop [] all_pass = Inr all_pass"
| "size_loop (c # cs) all_pass =
     bind_err (size_case c) (\<lambda>ok. size_loop cs (if ok then all_pass else False))"

definition test_size_decryption :: "py_error + bool" where
  "test_size_decryption = size_loop test_cases True"

subsection \<open>test_key_rotation\<close>

definition key_name :: "int \<Rightarrow> string" where
  "key_name offset = (let chunk = offset div 4 in if chunk mod 2 = 0 then ''KEY1'' else ''KEY2'')"

text \<open>\<open>range(0, 32, 4)\<close>.\<close>

definition rotation_offsets :: "int list" where
  "rotation_offsets = map (\<lambda>k. 4 * int k) [0..<8]"

definition expected :: "string list" where
  "expected = [''KEY1'', ''KEY2'', ''KEY1'', ''KEY2'', ''KEY1'', ''KEY2'', ''KEY1'', ''KEY2'']"

definition actual :: "string list" where
  "actual = map key_name rotation_offsets"

definition test_key_rotation :: bool where
  "test_key_rotation = (actual = expected)"

subsection \<open>test_byte_by_byte_vs_u32\<close>

text \<open>Lines 141 to 146, as a function of \<open>test_data\<close> and \<open>file_offset\<close>. The key is chosen
  once, before the loop, from \<open>file_offset\<close>; the loop runs over \<open>range(4)\<close> and indexes the
  copy of the data, which raises \<open>IndexError\<close> on a list shorter than four.\<close>

fun xor_loop :: "byte list \<Rightarrow> int \<Rightarrow> nat list \<Rightarrow> byte list \<Rightarrow> py_error + byte list" where
  "xor_loop k file_offset [] d = Inr d"
| "xor_loop k file_offset (i # is) d =
     (let byte_offset = file_offset + int i in
      if i < length d
      then xor_loop k file_offset is (d[i := d ! i XOR k ! nat (byte_offset mod 4)])
      else Inl IndexError)"

definition decrypted_byte_by_byte :: "byte list \<Rightarrow> int \<Rightarrow> py_error + byte list" where
  "decrypted_byte_by_byte test_data file_offset =
     xor_loop (key file_offset) file_offset [0..<4] test_data"

definition decrypted_new :: "byte list \<Rightarrow> int \<Rightarrow> py_error + byte list" where
  "decrypted_new test_data file_offset =
     bind_err (key_u32 file_offset) (\<lambda>k.
     bind_err (u32_from_bytes test_data) (\<lambda>data_u32.
     Inr (bytes_from_u32 (data_u32 XOR k))))"

definition test_byte_by_byte_vs_u32 :: "py_error + bool" where
  "test_byte_by_byte_vs_u32 =
     (let test_data = [0x12, 0x34, 0x56, 0x78]; file_offset = 4 in
      bind_err (decrypted_byte_by_byte test_data file_offset) (\<lambda>a.
      bind_err (decrypted_new test_data file_offset) (\<lambda>b. Inr (a = b))))"

subsection \<open>The top-level run\<close>

text \<open>The summary loop over the list of (name, passed) pairs: \<open>all_pass\<close> starts True and is
  cleared by every result that did not pass.\<close>

fun summary_loop :: "(string \<times> bool) list \<Rightarrow> bool \<Rightarrow> bool" where
  "summary_loop [] all_pass = all_pass"
| "summary_loop ((name, passed) # results) all_pass =
     summary_loop results (if \<not> passed then False else all_pass)"

text \<open>The status the run exits with, from the values the four test functions returned.\<close>

definition exit_status :: "bool \<Rightarrow> bool \<Rightarrow> bool \<Rightarrow> bool \<Rightarrow> int" where
  "exit_status r_magic r_size r_rotation r_bytewise =
     (let results = [(''Magic Decryption'', r_magic), (''Size Decryption'', r_size),
                     (''Key Rotation'', r_rotation), (''Byte-by-byte vs u32'', r_bytewise)]
      in if summary_loop results True then 0 else 1)"

text \<open>The run itself: the four tests are called in order. An exception that leaves a test
  is not caught anywhere, and the interpreter then ends with status 1.\<close>

definition main :: int where
  "main =
     (case test_magic_decryption of Inl e \<Rightarrow> 1 | Inr r_magic \<Rightarrow>
     (case test_size_decryption of Inl e \<Rightarrow> 1 | Inr r_size \<Rightarrow>
     (case test_byte_by_byte_vs_u32 of Inl e \<Rightarrow> 1 | Inr r_bytewise \<Rightarrow>
        exit_status r_magic r_size test_key_rotation r_bytewise)))"

section \<open>The codec and the scanner of the specification\<close>

text \<open>Modelled from the spec: the key byte of an absolute position, steps 2 and 3 of the
  algorithm of section 4.1 (the codec is not among the source files; the script above
  repeats its statements inline, on fixed data): \<open>chunk = p / 4\<close>,
  \<open>byte_in_chunk = p % 4\<close>, the key is KEY1 if \<open>chunk % 2 == 0\<close> else KEY2.\<close>

definition key_byte :: "int \<Rightarrow> byte" where
  "key_byte p =
     (let chunk = p div 4; byte_in_chunk = p mod 4 in
      (if chunk mod 2 = 0 then XOR_KEY1 else XOR_KEY2) ! nat byte_in_chunk)"

text \<open>Modelled from the spec: the function \<open>decrypt\<close> of ChunkedXorCodec, which is not among
  the source files. Section 4.1, steps 1 and 4: the byte at position \<open>i\<close> of the slice has
  the absolute position \<open>p = absolute_offset + i\<close>, and the output byte is
  \<open>input[i] XOR key[byte_in_chunk]\<close>. The output has the length of the input.\<close>

definition decrypt :: "byte list \<Rightarrow> int \<Rightarrow> byte list" where
  "decrypt bytes absolute_offset =
     map (\<lambda>i. bytes ! i XOR key_byte (absolute_offset + int i)) [0..<length bytes]"

text \<open>Modelled from the spec: the errors and the result of \<open>scan_header\<close> (sections 4.2
  and 7); the scanner is not among the source files.\<close>

datatype format_error = BadMagic | TruncatedInput

record header =
  magic_valid :: bool
  declared_length :: u32

text \<open>Modelled from the spec: \<open>scan_header\<close> of ContainerScanner, section 4.2, which is not
  among the source files. Eight bytes from the offset are decrypted, the first four are
  compared with the expected magic (\<open>BadMagic\<close> on a mismatch), the next four are the
  little-endian length. Fewer than eight bytes at the offset is \<open>TruncatedInput\<close>
  (section 7); the offsets of the spec are unsigned, so a negative one has no bytes.\<close>

definition scan_header :: "byte list \<Rightarrow> int \<Rightarrow> format_error + header" where
  "scan_header stream absolute_offset =
     (if absolute_offset < 0 \<or> int (length stream) < absolute_offset + 8 then Inl TruncatedInput
      else
        let plain = decrypt (take 8 (drop (nat absolute_offset) stream)) absolute_offset in
        if take 4 plain \<noteq> EXPECTED_MAGIC then Inl BadMagic
        else (case u32_from_bytes (drop 4 plain) of
                Inl e \<Rightarrow> Inl TruncatedInput
              | Inr n \<Rightarrow> Inr \<lparr>magic_valid = True, declared_length = n\<rparr>))"

text \<open>Modelled from the spec: the walk over concatenated records of section 4.2,
  \<open>next_offset = this_offset + 8 + declared_length\<close>, which is not among the source files.\<close>

definition next_offset :: "int \<Rightarrow> u32 \<Rightarrow> int" where
  "next_offset this_offset len = this_offset + 8 + uint len"

section \<open>update-core-benchmark-filters.py\<close>

subsection \<open>Files\<close>

text \<open>
  What \<open>update_filter_in_file\<close> touches of the outside world: the files, by path, and the
  standard error stream. A file has its text, whether it may be opened for reading and for
  writing, and how many characters the device still takes for it (\<open>None\<close>: no limit), so that
  a write can fail before it starts and also half way.
\<close>

record file_node =
  content :: string
  readable :: bool
  writable :: bool
  room :: "nat option"

type_synonym files = "string \<rightharpoonup> file_node"

record world =
  files :: files
  stderr :: "(string \<times> py_error) list"

text \<open>\<open>with open(filepath, 'r') as f: content = f.read()\<close>.\<close>

definition read_file :: "files \<Rightarrow> string \<Rightarrow> py_error + string" where
  "read_file fs filepath =
     (case fs filepath of
        None \<Rightarrow> Inl FileNotFoundError
      | Some f \<Rightarrow> if readable f then Inr (content f) else Inl PermissionError)"

text \<open>\<open>with open(filepath, 'w') as f: f.write(new_content)\<close>. Opening a file that may not be
  written raises and leaves it alone; opening for writing empties the file, so a write that
  the device cuts short leaves what fitted and raises.\<close>

definition write_file :: "files \<Rightarrow> string \<Rightarrow> string \<Rightarrow> files \<times> (py_error + unit)" where
  "write_file fs filepath new_content =
     (case fs filepath of
        None \<Rightarrow>
          (fs(filepath \<mapsto> \<lparr>content = new_content, readable = True, writable = True, room = None\<rparr>),
           Inr ())
      | Some f \<Rightarrow>
          if \<not> writable f then (fs, Inl PermissionError)
          else (case room f of
                  None \<Rightarrow> (fs(filepath \<mapsto> f\<lparr>content := new_content\<rparr>), Inr ())
                | Some n \<Rightarrow>
                    if length new_content \<le> n
                    then (fs(filepath \<mapsto> f\<lparr>content := new_content\<rparr>), Inr ())
                    else (fs(filepath \<mapsto> f\<lparr>content := take n new_content\<rparr>), Inl OSError)))"

subsection \<open>update_filter_in_file\<close>

text \<open>The pattern \<open>-filter="[^"]*"\<close> and the replacement \<open>-filter="{new_filter}"\<close>
  (\<open>CHR 0x22\<close> is the double quote).\<close>

definition pattern :: string where
  "pattern = ''-filter='' @ [CHR 0x22] @ ''[^'' @ [CHR 0x22] @ '']*'' @ [CHR 0x22]"

definition replacement :: "string \<Rightarrow> string" where
  "replacement new_filter = ''-filter='' @ [CHR 0x22] @ new_filter @ [CHR 0x22]"

text \<open>
  \<open>re.sub\<close> belongs to Python's library, not to the script: it is the parameter \<open>re_sub\<close>,
  which returns the new text or the exception raised (a replacement with a bad escape raises
  \<open>re.error\<close>). The function returns its boolean and the world it leaves. Every exception
  raised in the \<open>try\<close> block is caught, reported on standard error, and followed by
  \<open>return False\<close>.
\<close>

definition update_filter_in_file ::
  "(string \<Rightarrow> string \<Rightarrow> string \<Rightarrow> py_error + string) \<Rightarrow> world \<Rightarrow> string \<Rightarrow> string \<Rightarrow> bool \<times> world"
where
  "update_filter_in_file re_sub w filepath new_filter =
     (case read_file (files w) filepath of
        Inl e \<Rightarrow> (False, w\<lparr>stderr := stderr w @ [(filepath, e)]\<rparr>)
      | Inr old_content \<Rightarrow>
          (case re_sub pattern (replacement new_filter) old_content of
             Inl e \<Rightarrow> (False, w\<lparr>stderr := stderr w @ [(filepath, e)]\<rparr>)
           | Inr new_content \<Rightarrow>
               if new_content \<noteq> old_content
               then (case write_file (files w) filepath new_content of
                       (fs, Inl e) \<Rightarrow> (False, w\<lparr>files := fs, stderr := stderr w @ [(filepath, e)]\<rparr>)
                     | (fs, Inr u) \<Rightarrow> (True, w\<lparr>files := fs\<rparr>))
               else (False, w)))"

subsection \<open>The substitution on plain replacements\<close>

text \<open>
  To run the function on concrete files: what \<open>re.sub\<close> computes for the pattern of the
  script when the replacement has no backslash, so that it is inserted as it is. From left
  to right, every \<open>-filter="\<close> that is followed, after characters other than the double
  quote, by a double quote is replaced up to that quote.
\<close>

fun after_quote :: "string \<Rightarrow> string option" where
  "after_quote [] = None"
| "after_quote (c # cs) = (if c = CHR 0x22 then Some cs else after_quote cs)"

function sub_filter :: "string \<Rightarrow> string \<Rightarrow> string" where
  "sub_filter repl [] = []"
| "sub_filter repl (c # cs) =
     (if take 9 (c # cs) = ''-filter='' @ [CHR 0x22]
      then (case after_quote (drop 9 (c # cs)) of
              Some r \<Rightarrow> repl @ sub_filter repl r
            | None \<Rightarrow> c # sub_filter repl cs)
      else c # sub_filter repl cs)"
  by pat_completeness auto
termination
proof (relation "measure (\<lambda>(repl, s). length s)")
  show "wf (measure (\<lambda>(repl, s). length s))" by simp
next
  fix repl :: string and c cs r
  assume found: "after_quote (drop 9 (c # cs)) = Some r"
  have shorter: "after_quote s = Some t \<Longrightarrow> length t < length s" for s t
    by (induction s) (auto split: if_splits)
  from found have "length r < length (drop 9 (c # cs))" by (rule shorter)
  then show "((repl, r), (repl, c # cs)) \<in> measure (\<lambda>(repl, s). length s)" by simp
qed simp_all

definition re_sub_plain :: "string \<Rightarrow> string \<Rightarrow> string \<Rightarrow> py_error + string" where
  "re_sub_plain pat repl s = Inr (sub_filter repl s)"

subsection \<open>A script file to run it on\<close>

text \<open>A file \<open>a.sh\<close> holding one benchmark call with a filter, in a world with nothing on
  standard error; whether it may be written and how much room it has are left open.\<close>

definition demo_text :: "string \<Rightarrow> string" where
  "demo_text flt = ''bench -filter='' @ [CHR 0x22] @ flt @ [CHR 0x22] @ '' -x''"

definition demo_world :: "bool \<Rightarrow> nat option \<Rightarrow> world" where
  "demo_world wr rm =
     \<lparr>files = [''a.sh'' \<mapsto> \<lparr>content = demo_text ''Old'', readable = True, writable = wr, room = rm\<rparr>],
      stderr = []\<rparr>"

section \<open>Facts about the conversions, the keys and the two decryptions\<close>

lemma key1_u32: "u32_from_bytes XOR_KEY1 = Inr 0xade92284"
  by (simp add: XOR_KEY1_def)

lemma key2_u32: "u32_from_bytes XOR_KEY2 = Inr 0x14ff8fb7"
  by (simp add: XOR_KEY2_def)

lemma key_u32_eq: "key_u32 offset = Inr (if use_key1 offset then 0xade92284 else 0x14ff8fb7)"
  by (simp add: key_u32_def bind_err_def key1_u32 key2_u32)

lemma key_u32_key: "key_u32 offset = u32_from_bytes (key offset)"
  by (simp add: key_u32_eq key_def key1_u32 key2_u32)

lemma length_key: "length (key offset) = 4"
  by (simp add: key_def XOR_KEY1_def XOR_KEY2_def)

lemma bytes_from_u32_xor:
  "bytes_from_u32 (a XOR b) = map2 (XOR) (bytes_from_u32 a) (bytes_from_u32 b)"
  by (simp add: bytes_from_u32_def unsigned_xor_eq)

lemma bytes_from_u32_pack:
  "bytes_from_u32 (ucast b0 OR push_bit 8 (ucast b1) OR push_bit 16 (ucast b2) OR push_bit 24 (ucast b3))
     = [b0, b1, b2, b3]"
  unfolding bytes_from_u32_def
  apply simp
  apply (intro conjI; rule bit_word_eqI)
  apply (auto simp add: bit_simps dest: bit_imp_le_length)
  done

lemma u32_from_bytes_unpack: "u32_from_bytes (bytes_from_u32 v) = Inr v"
  unfolding bytes_from_u32_def u32_from_bytes.simps
  apply (rule arg_cong[where f=Inr])
  apply (rule bit_word_eqI)
  subgoal for n
    by (cases "n < 8"; cases "n < 16"; cases "n < 24") (auto simp add: bit_simps not_less)
  done

lemma four_elems: "length (xs :: 'a list) = 4 \<Longrightarrow> \<exists>a b c d. xs = [a, b, c, d]"
  by (cases xs; simp; cases "tl xs"; simp; cases "tl (tl xs)"; simp; cases "tl (tl (tl xs))"; simp)

lemma range4: "[0..<4] = [0, Suc 0, 2, 3]"
  by (simp add: upt_conv_Cons)

lemma nth4:
  "[k0, k1, k2, k3] ! 0 = k0" "[k0, k1, k2, k3] ! Suc 0 = k1"
  "[k0, k1, k2, k3] ! 2 = k2" "[k0, k1, k2, k3] ! 3 = k3"
  by (simp_all add: eval_nat_numeral)

lemma byte_by_byte_four:
  "decrypted_byte_by_byte [b0, b1, b2, b3] file_offset =
     Inr [b0 XOR key file_offset ! nat (file_offset mod 4),
          b1 XOR key file_offset ! nat ((file_offset + 1) mod 4),
          b2 XOR key file_offset ! nat ((file_offset + 2) mod 4),
          b3 XOR key file_offset ! nat ((file_offset + 3) mod 4)]"
  by (simp add: decrypted_byte_by_byte_def range4 Let_def)

lemma new_four:
  "key file_offset = [k0, k1, k2, k3] \<Longrightarrow>
   decrypted_new [b0, b1, b2, b3] file_offset = Inr [b0 XOR k0, b1 XOR k1, b2 XOR k2, b3 XOR k3]"
  by (simp add: decrypted_new_def key_u32_key bind_err_def bytes_from_u32_xor bytes_from_u32_pack
      del: bit_simps)

lemma length_decrypt: "length (decrypt b off) = length b"
  by (simp add: decrypt_def)

lemma nth_decrypt: "i < length b \<Longrightarrow> decrypt b off ! i = b ! i XOR key_byte (off + int i)"
  by (simp add: decrypt_def)

lemma decrypt_four:
  "decrypt [b0, b1, b2, b3] off =
     [b0 XOR key_byte off, b1 XOR key_byte (off + 1), b2 XOR key_byte (off + 2), b3 XOR key_byte (off + 3)]"
  by (simp add: decrypt_def range4 nth4)

lemma xor_twice: "(x XOR k) XOR k = (x :: 'a :: len word)"
  by (simp add: xor.assoc)

lemma key_byte_key: "key_byte p = key p ! nat (p mod 4)"
  by (simp add: key_byte_def key_def use_key1_def Let_def)

lemma aligned_mods:
  assumes "file_offset mod 4 = (0::int)"
  shows "nat (file_offset mod 4) = 0" "nat ((file_offset + 1) mod 4) = Suc 0"
    "nat ((file_offset + 2) mod 4) = 2" "nat ((file_offset + 3) mod 4) = 3"
proof -
  have "(file_offset + 1) mod 4 = 1" using assms by presburger
  moreover have "(file_offset + 2) mod 4 = 2" using assms by presburger
  moreover have "(file_offset + 3) mod 4 = 3" using assms by presburger
  ultimately show "nat (file_offset mod 4) = 0" "nat ((file_offset + 1) mod 4) = Suc 0"
    "nat ((file_offset + 2) mod 4) = 2" "nat ((file_offset + 3) mod 4) = 3"
    using assms by simp_all
qed

lemma aligned_same_chunk:
  assumes "file_offset mod 4 = (0::int)"
  shows "use_key1 (file_offset + 1) = use_key1 file_offset"
    "use_key1 (file_offset + 2) = use_key1 file_offset"
    "use_key1 (file_offset + 3) = use_key1 file_offset"
proof -
  have "(file_offset + 1) div 4 = file_offset div 4" using assms by presburger
  moreover have "(file_offset + 2) div 4 = file_offset div 4" using assms by presburger
  moreover have "(file_offset + 3) div 4 = file_offset div 4" using assms by presburger
  ultimately show "use_key1 (file_offset + 1) = use_key1 file_offset"
    "use_key1 (file_offset + 2) = use_key1 file_offset"
    "use_key1 (file_offset + 3) = use_key1 file_offset"
    by (simp_all add: use_key1_def)
qed

lemma rotation_offsets_eq: "rotation_offsets = [0, 4, 8, 12, 16, 20, 24, 28]"
  by (simp add: rotation_offsets_def upt_conv_Cons)

lemma main_exits_0: "main = 0"
  by (simp add: main_def test_magic_decryption_def decrypted_magic_def key_u32_eq use_key1_def
      bind_err_def bytes_from_u32_def ENCRYPTED_MAGIC_def EXPECTED_MAGIC_def
      test_size_decryption_def test_cases_def size_case_def encrypted_size_u32_def
      decrypted_size_u32_def test_byte_by_byte_vs_u32_def byte_by_byte_four decrypted_new_def
      key_def XOR_KEY2_def test_key_rotation_def actual_def expected_def rotation_offsets_eq
      key_name_def exit_status_def)

lemma scan_demo_header:
  "scan_header (replicate 100 0 @ [0x4e, 0x31, 0x4b, 0xcd, 0xb6, 0x22, 0xe9, 0xad]) 100
     = Inr \<lparr>magic_valid = True, declared_length = 50\<rparr>"
  by (simp add: scan_header_def decrypt_def key_byte_def Let_def upt_conv_Cons XOR_KEY1_def
      XOR_KEY2_def EXPECTED_MAGIC_def nth_append)

lemma sub_new: "sub_filter (replacement ''New'') (demo_text ''Old'') = demo_text ''New''"
  by (simp add: demo_text_def replacement_def)

lemma sub_old: "sub_filter (replacement ''Old'') (demo_text ''Old'') = demo_text ''Old''"
  by (simp add: demo_text_def replacement_def)

lemma neq: "demo_text ''New'' \<noteq> demo_text ''Old''"
  by (simp add: demo_text_def)

lemma run_changed:
  "update_filter_in_file re_sub_plain (demo_world True None) ''a.sh'' ''New'' =
     (True, \<lparr>files = [''a.sh'' \<mapsto> \<lparr>content = demo_text ''New'', readable = True, writable = True, room = None\<rparr>], stderr = []\<rparr>)"
  by (simp add: update_filter_in_file_def demo_world_def read_file_def write_file_def re_sub_plain_def sub_new neq)

lemma run_unchanged:
  "update_filter_in_file re_sub_plain (demo_world True None) ''a.sh'' ''Old'' = (False, demo_world True None)"
  by (simp add: update_filter_in_file_def demo_world_def read_file_def write_file_def re_sub_plain_def sub_old)

lemma run_missing:
  "update_filter_in_file re_sub_plain (demo_world True None) ''b.sh'' ''New'' =
     (False, (demo_world True None)\<lparr>stderr := [(''b.sh'', FileNotFoundError)]\<rparr>)"
  by (simp add: update_filter_in_file_def demo_world_def read_file_def)

lemma run_readonly:
  "update_filter_in_file re_sub_plain (demo_world False None) ''a.sh'' ''New'' =
     (False, (demo_world False None)\<lparr>stderr := [(''a.sh'', PermissionError)]\<rparr>)"
  by (simp add: update_filter_in_file_def demo_world_def read_file_def write_file_def re_sub_plain_def sub_new neq)

lemma run_full:
  "update_filter_in_file re_sub_plain (demo_world True (Some 5)) ''a.sh'' ''New'' =
     (False, \<lparr>files = [''a.sh'' \<mapsto> \<lparr>content = ''bench'', readable = True, writable = True, room = Some 5\<rparr>], stderr = [(''a.sh'', OSError)]\<rparr>)"
  by (simp add: update_filter_in_file_def demo_world_def read_file_def write_file_def re_sub_plain_def sub_new neq) (simp add: demo_text_def)


section \<open>Properties\<close>

text \<open>
  C1. Decryption is an involution: decrypting, at the same offset, the result of decrypting
  a byte sequence gives the sequence back, for every sequence and every offset. This holds
  of the codec of the specification on sequences of any length, of the integer XOR of
  test_size_decryption (line 80, then line 84) on every 32-bit value, and of the per-byte
  loop of test_byte_by_byte_vs_u32 on every four bytes.
\<close>

theorem decrypt_involution:
  "decrypt (decrypt b off) off = b \<and>
   bind_err (encrypted_size_u32 v off) (\<lambda>e. decrypted_size_u32 e off) = Inr v \<and>
   bind_err (decrypted_byte_by_byte [b0, b1, b2, b3] off) (\<lambda>e. decrypted_byte_by_byte e off)
     = Inr [b0, b1, b2, b3]"
proof (intro conjI)
  show "decrypt (decrypt b off) off = b"
  proof (rule nth_equalityI)
    show "length (decrypt (decrypt b off) off) = length b"
      by (simp only: length_decrypt)
  next
    fix i assume "i < length (decrypt (decrypt b off) off)"
    then have i: "i < length b" by (simp only: length_decrypt)
    then have i': "i < length (decrypt b off)" by (simp only: length_decrypt)
    show "decrypt (decrypt b off) off ! i = b ! i"
      by (simp only: nth_decrypt[OF i'] nth_decrypt[OF i] xor_twice)
  qed
next
  show "bind_err (encrypted_size_u32 v off) (\<lambda>e. decrypted_size_u32 e off) = Inr v"
    by (simp add: encrypted_size_u32_def decrypted_size_u32_def key_u32_eq bind_err_def
        u32_from_bytes_unpack xor_twice)
next
  show "bind_err (decrypted_byte_by_byte [b0, b1, b2, b3] off) (\<lambda>e. decrypted_byte_by_byte e off)
     = Inr [b0, b1, b2, b3]"
    by (simp only: byte_by_byte_four bind_err_def sum.case xor_twice)
qed

text \<open>
  C2. At every offset divisible by 4 and on every input of four bytes, the per-byte loop of
  the script and its word-wise method (both as little-endian 32-bit integers, XORed, packed
  again) give the same four bytes, and these are the bytes of the specification's byte-wise
  decryption, where each byte takes the key byte of its own chunk and position.
\<close>

theorem byte_by_byte_eq_u32:
  assumes "file_offset mod 4 = 0" and "length test_data = 4"
  shows "decrypted_byte_by_byte test_data file_offset = decrypted_new test_data file_offset \<and>
         decrypted_new test_data file_offset = Inr (decrypt test_data file_offset)"
proof -
  from assms(2) obtain b0 b1 b2 b3 where d: "test_data = [b0, b1, b2, b3]"
    using four_elems by blast
  from length_key[of file_offset] obtain k0 k1 k2 k3 where k: "key file_offset = [k0, k1, k2, k3]"
    using four_elems by blast
  note m = aligned_mods[OF assms(1)]
  have kb: "key_byte file_offset = k0" "key_byte (file_offset + 1) = k1"
    "key_byte (file_offset + 2) = k2" "key_byte (file_offset + 3) = k3"
    using aligned_same_chunk[OF assms(1)] k
    by (simp_all add: key_byte_key key_def m nth4)
  have "decrypted_byte_by_byte test_data file_offset = decrypted_new test_data file_offset"
    unfolding d byte_by_byte_four new_four[OF k] m unfolding k nth4 ..
  moreover have "decrypted_new test_data file_offset = Inr (decrypt test_data file_offset)"
    unfolding d new_four[OF k] decrypt_four kb ..
  ultimately show ?thesis ..
qed

theorem byte_by_byte_eq_u32_witness:
  "(4::int) mod 4 = 0 \<and> length [0x12, 0x34, 0x56, 0x78 :: byte] = 4 \<and>
   decrypted_byte_by_byte [0x12, 0x34, 0x56, 0x78] 4 = decrypted_new [0x12, 0x34, 0x56, 0x78] 4 \<and>
   decrypted_new [0x12, 0x34, 0x56, 0x78] 4 = Inr (decrypt [0x12, 0x34, 0x56, 0x78] 4)"
proof -
  have h1: "(4::int) mod 4 = 0" by simp
  have h2: "length [0x12, 0x34, 0x56, 0x78 :: byte] = 4" by simp
  from byte_by_byte_eq_u32[OF h1 h2] h1 h2 show ?thesis by blast
qed



text \<open>
  C4. The four bytes 7d 9c 5d 74 at offset 0, where the rule selects KEY1 = 84 22 e9 ad,
  decrypt to the expected magic f9 be b4 d9, and test_magic_decryption returns True.
\<close>

theorem magic_known_vector:
  "use_key1 0 \<and> key 0 = [0x84, 0x22, 0xe9, 0xad] \<and>
   decrypted_magic [0x7d, 0x9c, 0x5d, 0x74] 0 = Inr [0xf9, 0xbe, 0xb4, 0xd9] \<and>
   test_magic_decryption = Inr True"
  by (simp add: key_u32_eq key_def XOR_KEY1_def use_key1_def decrypted_magic_def bind_err_def
      bytes_from_u32_def test_magic_decryption_def ENCRYPTED_MAGIC_def EXPECTED_MAGIC_def)

text \<open>
  C5. At the offsets 0, 4, ..., 28 the rule selects KEY1, KEY2, KEY1, KEY2, KEY1, KEY2, KEY1,
  KEY2, so test_key_rotation returns True; and two offsets whose chunks have the same parity
  select the same key.
\<close>

theorem key_rotation_pattern:
  "rotation_offsets = [0, 4, 8, 12, 16, 20, 24, 28] \<and>
   map key_name [0, 4, 8, 12, 16, 20, 24, 28]
     = [''KEY1'', ''KEY2'', ''KEY1'', ''KEY2'', ''KEY1'', ''KEY2'', ''KEY1'', ''KEY2''] \<and>
   test_key_rotation \<and>
   (\<forall>a b. (a div 4) mod 2 = (b div 4) mod 2 \<longrightarrow> key_name a = key_name b)"
  by (simp add: test_key_rotation_def actual_def expected_def rotation_offsets_eq key_name_def)

theorem key_rotation_pattern_witness:
  "((3::int) div 4) mod 2 = (1000000000008 div 4) mod 2 \<and> key_name 3 = key_name 1000000000008"
proof -
  have h: "((3::int) div 4) mod 2 = (1000000000008 div 4) mod 2" by simp
  from key_rotation_pattern
  have "\<forall>a b. (a div 4) mod 2 = (b div 4) mod 2 \<longrightarrow> key_name a = key_name b" by blast
  then have "key_name 3 = key_name 1000000000008" using h by blast
  with h show ?thesis by blast
qed

text \<open>
  C6. The value 1000 is e8 03 00 00 in little-endian bytes; encrypted at the size offset 4
  with the key of that offset and decrypted there again it is 1000, and the same at the
  size offsets 104 and 204, so test_size_decryption returns True.
\<close>

theorem size_round_trip:
  "bytes_from_u32 1000 = [0xe8, 0x03, 0x00, 0x00] \<and>
   encrypted_size_u32 1000 4 = Inr 0x14ff8c5f \<and> decrypted_size_u32 0x14ff8c5f 4 = Inr 1000 \<and>
   encrypted_size_u32 1000 104 = Inr 0xade9216c \<and> decrypted_size_u32 0xade9216c 104 = Inr 1000 \<and>
   encrypted_size_u32 1000 204 = Inr 0x14ff8c5f \<and> decrypted_size_u32 0x14ff8c5f 204 = Inr 1000 \<and>
   test_size_decryption = Inr True"
  by (simp add: bytes_from_u32_def encrypted_size_u32_def decrypted_size_u32_def key_u32_eq
      use_key1_def bind_err_def test_size_decryption_def test_cases_def size_case_def)

text \<open>
  C7, as the specification states it: each of the three size-field offsets of the test is
  not a multiple of 4. The first of them is 4.
\<close>

theorem size_offsets_not_aligned_counterexample:
  "snd (test_cases ! 0) = 4 \<and> snd (test_cases ! 0) mod 4 = 0"
  by (simp add: test_cases_def)

text \<open>
  C7, amended: the test has exactly three cases, their size-field offsets are 4, 104 and
  204, and each of these is a multiple of 4.
\<close>

theorem size_offsets_aligned:
  "length test_cases = 3 \<and> map snd test_cases = [4, 104, 204] \<and>
   list_all (\<lambda>size_offset. size_offset mod 4 = 0) (map snd test_cases)"
  by (simp add: test_cases_def)

text \<open>
  C8. After a header scanned at offset 100 that declares a payload of 50 bytes, the next
  header is probed at 100 + 8 + 50 = 158; that offset lies in chunk 39, which is odd, and
  the key selection rule of the script gives KEY2 there.
\<close>

theorem next_probe_after_header:
  assumes "scan_header stream 100 = Inr h" and "declared_length h = 50"
  shows "next_offset 100 (declared_length h) = 158 \<and>
         next_offset 100 (declared_length h) div 4 = 39 \<and> (39::int) mod 2 = 1 \<and>
         \<not> use_key1 (next_offset 100 (declared_length h)) \<and>
         key (next_offset 100 (declared_length h)) = XOR_KEY2 \<and>
         key_name (next_offset 100 (declared_length h)) = ''KEY2''"
  using assms(2) by (simp add: next_offset_def use_key1_def key_def key_name_def)

theorem next_probe_after_header_witness:
  "scan_header (replicate 100 0 @ [0x4e, 0x31, 0x4b, 0xcd, 0xb6, 0x22, 0xe9, 0xad]) 100
     = Inr \<lparr>magic_valid = True, declared_length = 50\<rparr> \<and>
   declared_length \<lparr>magic_valid = True, declared_length = 50\<rparr> = 50 \<and>
   next_offset 100 (declared_length \<lparr>magic_valid = True, declared_length = 50\<rparr>) = 158 \<and>
   key_name (next_offset 100 (declared_length \<lparr>magic_valid = True, declared_length = 50\<rparr>)) = ''KEY2''"
proof -
  have h: "declared_length \<lparr>magic_valid = True, declared_length = 50\<rparr> = 50" by simp
  from next_probe_after_header[OF scan_demo_header h] scan_demo_header h
  show ?thesis by blast
qed

text \<open>
  C9. The run exits with status 0 exactly when the four test functions all returned True,
  and with status 1 exactly when one of them did not.
\<close>

theorem exit_status_iff_all_pass:
  "(exit_status r_magic r_size r_rotation r_bytewise = 0)
     = (r_magic \<and> r_size \<and> r_rotation \<and> r_bytewise) \<and>
   (exit_status r_magic r_size r_rotation r_bytewise = 1)
     = (\<not> (r_magic \<and> r_size \<and> r_rotation \<and> r_bytewise))"
  by (simp add: exit_status_def)

text \<open>
  C10. update_filter_in_file returns True exactly when the substitution changed the text and
  the new text was written, and then the file holds the new text and nothing else changed.
  The files change only when the substitution changed the text. When the substitution
  leaves the text as it is, the world is left as it is and False is returned; an exception
  while reading, substituting or writing gives False.
\<close>

theorem update_filter_in_file_frame:
  assumes run: "update_filter_in_file re_sub w filepath new_filter = (result, w')"
  shows
   "(result \<longrightarrow>
       (\<exists>old_content new_content f.
          read_file (files w) filepath = Inr old_content \<and>
          re_sub pattern (replacement new_filter) old_content = Inr new_content \<and>
          new_content \<noteq> old_content \<and> files w filepath = Some f \<and>
          files w' = (files w)(filepath \<mapsto> f\<lparr>content := new_content\<rparr>) \<and> stderr w' = stderr w)) \<and>
    ((\<exists>old_content new_content.
          read_file (files w) filepath = Inr old_content \<and>
          re_sub pattern (replacement new_filter) old_content = Inr new_content \<and>
          new_content \<noteq> old_content \<and> snd (write_file (files w) filepath new_content) = Inr ())
       \<longrightarrow> result) \<and>
    (files w' \<noteq> files w \<longrightarrow>
       (\<exists>old_content new_content.
          read_file (files w) filepath = Inr old_content \<and>
          re_sub pattern (replacement new_filter) old_content = Inr new_content \<and>
          new_content \<noteq> old_content)) \<and>
    ((\<exists>old_content.
          read_file (files w) filepath = Inr old_content \<and>
          re_sub pattern (replacement new_filter) old_content = Inr old_content)
       \<longrightarrow> \<not> result \<and> w' = w) \<and>
    ((\<exists>e. read_file (files w) filepath = Inl e) \<longrightarrow> \<not> result \<and> files w' = files w) \<and>
    ((\<exists>old_content new_content e.
          read_file (files w) filepath = Inr old_content \<and>
          re_sub pattern (replacement new_filter) old_content = Inr new_content \<and>
          snd (write_file (files w) filepath new_content) = Inl e)
       \<longrightarrow> \<not> result)"
proof (cases "read_file (files w) filepath")
  case (Inl e)
  with run show ?thesis by (auto simp add: update_filter_in_file_def)
next
  case (Inr old_content)
  note rd = this
  then obtain f where f: "files w filepath = Some f" and rf: "readable f" and c: "content f = old_content"
    by (auto simp add: read_file_def split: option.splits if_splits)
  show ?thesis
  proof (cases "re_sub pattern (replacement new_filter) old_content")
    case (Inl e)
    with run rd show ?thesis by (auto simp add: update_filter_in_file_def)
  next
    case (Inr new_content)
    note sb = this
    show ?thesis
    proof (cases "new_content = old_content")
      case True
      with run rd sb show ?thesis by (auto simp add: update_filter_in_file_def)
    next
      case False
      show ?thesis
      proof (cases "write_file (files w) filepath new_content")
        case (Pair fs out)
        note wr = this
        show ?thesis
        proof (cases out)
          case (Inl e)
          with run rd sb False wr show ?thesis by (auto simp add: update_filter_in_file_def)
        next
          case (Inr u)
          with wr f have "fs = (files w)(filepath \<mapsto> f\<lparr>content := new_content\<rparr>)"
            by (auto simp add: write_file_def split: if_splits option.splits)
          with run rd sb False wr Inr f show ?thesis
            by (auto simp add: update_filter_in_file_def)
        qed
      qed
    qed
  qed
qed

theorem update_filter_in_file_frame_witness:
  "update_filter_in_file re_sub_plain (demo_world True None) ''a.sh'' ''New'' =
     (True, \<lparr>files = [''a.sh'' \<mapsto> \<lparr>content = demo_text ''New'', readable = True,
                                    writable = True, room = None\<rparr>], stderr = []\<rparr>) \<and>
   (\<exists>old_content new_content f.
      read_file (files (demo_world True None)) ''a.sh'' = Inr old_content \<and>
      re_sub_plain pattern (replacement ''New'') old_content = Inr new_content \<and>
      new_content \<noteq> old_content \<and> files (demo_world True None) ''a.sh'' = Some f \<and>
      [''a.sh'' \<mapsto> \<lparr>content = demo_text ''New'', readable = True, writable = True, room = None\<rparr>]
        = (files (demo_world True None))(''a.sh'' \<mapsto> f\<lparr>content := new_content\<rparr>)) \<and>
   update_filter_in_file re_sub_plain (demo_world True None) ''a.sh'' ''Old'' =
     (False, demo_world True None) \<and>
   read_file (files (demo_world True None)) ''a.sh'' = Inr (demo_text ''Old'') \<and>
   re_sub_plain pattern (replacement ''Old'') (demo_text ''Old'') = Inr (demo_text ''Old'') \<and>
   update_filter_in_file re_sub_plain (demo_world True None) ''b.sh'' ''New'' =
     (False, (demo_world True None)\<lparr>stderr := [(''b.sh'', FileNotFoundError)]\<rparr>) \<and>
   read_file (files (demo_world True None)) ''b.sh'' = Inl FileNotFoundError \<and>
   update_filter_in_file re_sub_plain (demo_world False None) ''a.sh'' ''New'' =
     (False, (demo_world False None)\<lparr>stderr := [(''a.sh'', PermissionError)]\<rparr>) \<and>
   snd (write_file (files (demo_world False None)) ''a.sh'' (demo_text ''New'')) = Inl PermissionError \<and>
   update_filter_in_file re_sub_plain (demo_world True (Some 5)) ''a.sh'' ''New'' =
     (False, \<lparr>files = [''a.sh'' \<mapsto> \<lparr>content = ''bench'', readable = True, writable = True,
                                     room = Some 5\<rparr>], stderr = [(''a.sh'', OSError)]\<rparr>)"
proof -
  have changed: "\<exists>old_content new_content f.
      read_file (files (demo_world True None)) ''a.sh'' = Inr old_content \<and>
      re_sub_plain pattern (replacement ''New'') old_content = Inr new_content \<and>
      new_content \<noteq> old_content \<and> files (demo_world True None) ''a.sh'' = Some f \<and>
      [''a.sh'' \<mapsto> \<lparr>content = demo_text ''New'', readable = True, writable = True, room = None\<rparr>]
        = (files (demo_world True None))(''a.sh'' \<mapsto> f\<lparr>content := new_content\<rparr>)"
  proof -
    from update_filter_in_file_frame[OF run_changed, THEN conjunct1, THEN mp, OF TrueI]
    obtain old_content new_content f where
      "read_file (files (demo_world True None)) ''a.sh'' = Inr old_content"
      "re_sub_plain pattern (replacement ''New'') old_content = Inr new_content"
      "new_content \<noteq> old_content" "files (demo_world True None) ''a.sh'' = Some f"
      "files \<lparr>files = [''a.sh'' \<mapsto> \<lparr>content = demo_text ''New'', readable = True,
                                         writable = True, room = None\<rparr>], stderr = []\<rparr>
        = (files (demo_world True None))(''a.sh'' \<mapsto> f\<lparr>content := new_content\<rparr>)"
      by blast
    then show ?thesis by (simp only: world.select_convs) blast
  qed
  have rd: "read_file (files (demo_world True None)) ''a.sh'' = Inr (demo_text ''Old'')"
    by (simp add: read_file_def demo_world_def)
  have sb: "re_sub_plain pattern (replacement ''Old'') (demo_text ''Old'') = Inr (demo_text ''Old'')"
    by (simp add: re_sub_plain_def sub_old)
  have missing: "read_file (files (demo_world True None)) ''b.sh'' = Inl FileNotFoundError"
    by (simp add: read_file_def demo_world_def)
  have ro: "snd (write_file (files (demo_world False None)) ''a.sh'' (demo_text ''New''))
      = Inl PermissionError"
    by (simp add: write_file_def demo_world_def)
  from run_changed changed run_unchanged rd sb run_missing missing run_readonly ro run_full
  show ?thesis by (intro conjI)
qed

end
